theory Spec2Isabelle
  imports Main "HOL-Library.Word"
begin

section \<open>The 13-bit instruction simulator (simulator.cpp)\<close>

text \<open>
  The program reads whitespace-separated tokens into \<open>memory\<close>, checks that the
  all-zero \<open>Stop\<close> token is present and that every opcode field is at most
  \<open>TidyUp\<close>, and then visits \<open>memory\<close> once, front to back, dispatching on the
  opcode of each token.

  What the model fixes:
  \<^item> \<open>unsigned int\<close> is a 32-bit word; arithmetic on it wraps.
  \<^item> \<open>std::string\<close> is \<open>string\<close>; a token is any string without whitespace, of
    any length: the program does not check tokens when it loads them.
  \<^item> \<open>std::map\<close> is a finite map written as a function into \<open>option\<close>;
    \<open>operator[]\<close> inserts a value-initialised entry for a missing key.
  \<^item> \<open>std::cin\<close> is the list of values still to be delivered; extraction from the
    exhausted list fails and leaves its target as it was. \<open>std::cout\<close> is the
    list of items written so far. Text that does not parse as a number is outside the model.
  \<^item> A \<open>return EXIT_FAILURE\<close>, an uncaught \<open>std::out_of_range\<close> and an
    out-of-range conversion from \<open>double\<close> are values of \<open>error\<close>, returned
    together with the state at that point.
  \<^item> The globals \<open>instruction\<close> and \<open>opcode\<close> are assigned at the top of each
    iteration before they are read, so they are local to \<open>execute\<close>.
  \<^item> Failure to open the input file and failure to allocate a vector are outside the model.
\<close>

type_synonym u32 = "32 word"

subsection \<open>binaryToDecimal\<close>

text \<open>
  \<open>result += pow(2, e)\<close> adds in \<open>double\<close> and converts the sum back to
  \<open>unsigned int\<close>. With \<open>pow\<close> exact on powers of two, the sum is the exact
  integer; the conversion is defined only when it is below \<open>2 ^ 32\<close>. Beyond that
  the language fixes no result (compiled code usually goes on with a wrapped value), and
  the model returns \<open>None\<close>. No input of at most 32 characters gets there, and
  \<open>main\<close> decodes slices of at most 6 characters.
\<close>

definition add_pow :: "u32 \<Rightarrow> nat \<Rightarrow> u32 option" where
  "add_pow result e =
     (if unat result + 2 ^ e < 2 ^ 32 then Some (result + 2 ^ e) else None)"

function binaryToDecimal_loop :: "string \<Rightarrow> nat \<Rightarrow> u32 \<Rightarrow> u32 option" where
  "binaryToDecimal_loop binary i result =
     (if i < length binary then
        (if binary ! i = CHR ''1'' then
           (case add_pow result (length binary - 1 - i) of
              None \<Rightarrow> None
            | Some result' \<Rightarrow> binaryToDecimal_loop binary (Suc i) result')
         else binaryToDecimal_loop binary (Suc i) result)
      else Some result)"
  by pat_completeness auto
termination
  by (relation "measure (\<lambda>(binary, i, result). length binary - i)") auto

declare binaryToDecimal_loop.simps [simp del]

definition binaryToDecimal :: "string \<Rightarrow> u32 option" where
  "binaryToDecimal binary = binaryToDecimal_loop binary 0 0"

text \<open>
  The specification's side of the decoder: the positional value of a bit string (a
  \<open>1\<close> with \<open>k\<close> characters to its right counts \<open>2 ^ k\<close>), and the canonical
  encoder of \<open>n\<close> on \<open>w\<close> characters, most significant bit first.
\<close>

fun positional :: "string \<Rightarrow> nat" where
  "positional [] = 0"
| "positional (c # cs) = (if c = CHR ''1'' then 2 ^ length cs else 0) + positional cs"

fun toBinary :: "nat \<Rightarrow> nat \<Rightarrow> string" where
  "toBinary 0 n = []"
| "toBinary (Suc w) n = toBinary w (n div 2) @ [if odd n then CHR ''1'' else CHR ''0'']"

subsection \<open>Strings, registers, console\<close>

text \<open>\<open>s.substr(pos, n)\<close> throws \<open>std::out_of_range\<close> when \<open>pos > s.size()\<close>.\<close>

definition substr :: "string \<Rightarrow> nat \<Rightarrow> nat \<Rightarrow> string option" where
  "substr s pos n = (if pos > length s then None else Some (take n (drop pos s)))"

text \<open>\<open>s.substr(pos)\<close>: to the end of the string.\<close>

definition substr_from :: "string \<Rightarrow> nat \<Rightarrow> string option" where
  "substr_from s pos = (if pos > length s then None else Some (drop pos s))"

text \<open>
  \<open>reg[i]\<close> on a \<open>const std::string\<close>: the character, or the terminating NUL at
  \<open>i = reg.size()\<close>. In \<open>validRegister\<close> the index 1 is read only after the
  character at index 0 was found to be a binary digit, so no index beyond the size is read.
\<close>

definition char_at :: "string \<Rightarrow> nat \<Rightarrow> char" where
  "char_at s i = (if i < length s then s ! i else CHR 0x00)"

definition validRegister :: "string \<Rightarrow> bool" where
  "validRegister reg =
     (let validSize = (length reg = 2);
          validChars = ((char_at reg 0 = CHR ''0'' \<or> char_at reg 0 = CHR ''1'') \<and>
                        (char_at reg 1 = CHR ''0'' \<or> char_at reg 1 = CHR ''1''))
      in validSize \<and> validChars)"

text \<open>
  \<open>m[k]\<close> on a \<open>std::map\<close>: the value read (the default \<open>d\<close> for a missing
  key), and the map afterwards (the missing key inserted with \<open>d\<close>).
\<close>

definition subscript_value :: "'v \<Rightarrow> ('k \<rightharpoonup> 'v) \<Rightarrow> 'k \<Rightarrow> 'v" where
  "subscript_value d m k = (case m k of None \<Rightarrow> d | Some v \<Rightarrow> v)"

definition subscript_map :: "'v \<Rightarrow> ('k \<rightharpoonup> 'v) \<Rightarrow> 'k \<Rightarrow> ('k \<rightharpoonup> 'v)" where
  "subscript_map d m k = (case m k of None \<Rightarrow> m(k \<mapsto> d) | Some v \<Rightarrow> m)"

datatype console_item = Text string | Number u32 | Index nat

datatype error =
    MissingHaltError             \<comment> \<open>Error: Could not find the 'Stop' instruction.\<close>
  | InvalidOpcodeError string    \<comment> \<open>Error: Invalid opcode '...'\<close>
  | InvalidRegisterError string  \<comment> \<open>Error: Invalid destination register '...'.\<close>
  | OutOfRange                   \<comment> \<open>uncaught std::out_of_range from substr\<close>
  | UndefinedConversion          \<comment> \<open>double to unsigned int, out of range\<close>

record state =
  registers :: "string \<rightharpoonup> u32"
  arrays :: "string \<rightharpoonup> u32 list"
  memory :: "string list"
  cin :: "u32 list"
  cout :: "console_item list"

text \<open>\<open>std::cin >> x\<close>: the new value of \<open>x\<close> and the rest of the input.\<close>

fun cin_read :: "u32 \<Rightarrow> u32 list \<Rightarrow> u32 \<times> u32 list" where
  "cin_read old [] = (old, [])"
| "cin_read old (v # vs) = (v, vs)"

subsection \<open>The handlers of the execution loop\<close>

definition handle_In :: "string \<Rightarrow> state \<Rightarrow> (error \<times> state) + state" where
  "handle_In instruction s =
     (let s1 = s\<lparr>cout := cout s @ [Text ''Enter a value: '']\<rparr>;
          s2 = s1\<lparr>cin := snd (cin_read 0 (cin s1))\<rparr>;
          val = fst (cin_read 0 (cin s1))
      in case substr instruction 5 2 of
           None \<Rightarrow> Inl (OutOfRange, s2)
         | Some destination \<Rightarrow>
             if \<not> validRegister destination
             then Inl (InvalidRegisterError destination, s2)
             else Inr (s2\<lparr>registers := (registers s2)(destination \<mapsto> val)\<rparr>))"

definition handle_Out :: "string \<Rightarrow> state \<Rightarrow> (error \<times> state) + state" where
  "handle_Out instruction s =
     (case substr instruction 5 2 of
        None \<Rightarrow> Inl (OutOfRange, s)
      | Some source \<Rightarrow>
          if \<not> validRegister source
          then Inl (InvalidRegisterError source, s)
          else Inr (s\<lparr>registers := subscript_map 0 (registers s) source,
                       cout := cout s @ [Number (subscript_value 0 (registers s) source)]\<rparr>))"

definition handle_Incr :: "string \<Rightarrow> state \<Rightarrow> (error \<times> state) + state" where
  "handle_Incr instruction s =
     (case substr instruction 5 6 of
        None \<Rightarrow> Inl (OutOfRange, s)
      | Some literal \<Rightarrow>
         (case binaryToDecimal literal of
            None \<Rightarrow> Inl (UndefinedConversion, s)
          | Some amount \<Rightarrow>
             (case substr_from instruction 11 of
                None \<Rightarrow> Inl (OutOfRange, s)
              | Some source \<Rightarrow>
                  if \<not> validRegister source
                  then Inl (InvalidRegisterError source, s)
                  else Inr (s\<lparr>registers := (registers s)
                         (source \<mapsto> subscript_value 0 (registers s) source + amount)\<rparr>))))"

definition handle_Add :: "string \<Rightarrow> state \<Rightarrow> (error \<times> state) + state" where
  "handle_Add instruction s =
     (case substr instruction 5 2 of
        None \<Rightarrow> Inl (OutOfRange, s)
      | Some lhs \<Rightarrow>
         (case substr instruction 7 2 of
            None \<Rightarrow> Inl (OutOfRange, s)
          | Some rhs \<Rightarrow>
             (case substr instruction 9 2 of
                None \<Rightarrow> Inl (OutOfRange, s)
              | Some destination \<Rightarrow>
                  if \<not> validRegister destination
                  then Inl (InvalidRegisterError destination, s)
                  else
                    (let r1 = subscript_map 0 (registers s) lhs;
                         r2 = subscript_map 0 r1 rhs
                     in Inr (s\<lparr>registers := r2(destination \<mapsto>
                          subscript_value 0 (registers s) lhs + subscript_value 0 r1 rhs)\<rparr>)))))"

definition handle_Sub :: "string \<Rightarrow> state \<Rightarrow> (error \<times> state) + state" where
  "handle_Sub instruction s =
     (case substr instruction 5 2 of
        None \<Rightarrow> Inl (OutOfRange, s)
      | Some lhs \<Rightarrow>
         (case substr instruction 7 2 of
            None \<Rightarrow> Inl (OutOfRange, s)
          | Some rhs \<Rightarrow>
             (case substr instruction 9 2 of
                None \<Rightarrow> Inl (OutOfRange, s)
              | Some destination \<Rightarrow>
                  if \<not> validRegister destination
                  then Inl (InvalidRegisterError destination, s)
                  else
                    (let r1 = subscript_map 0 (registers s) lhs;
                         r2 = subscript_map 0 r1 rhs
                     in Inr (s\<lparr>registers := r2(destination \<mapsto>
                          subscript_value 0 (registers s) lhs - subscript_value 0 r1 rhs)\<rparr>)))))"

definition handle_Mul :: "string \<Rightarrow> state \<Rightarrow> (error \<times> state) + state" where
  "handle_Mul instruction s =
     (case substr instruction 5 2 of
        None \<Rightarrow> Inl (OutOfRange, s)
      | Some lhs \<Rightarrow>
         (case substr instruction 7 2 of
            None \<Rightarrow> Inl (OutOfRange, s)
          | Some rhs \<Rightarrow>
             (case substr instruction 9 2 of
                None \<Rightarrow> Inl (OutOfRange, s)
              | Some destination \<Rightarrow>
                  if \<not> validRegister destination
                  then Inl (InvalidRegisterError destination, s)
                  else
                    (let r1 = subscript_map 0 (registers s) lhs;
                         r2 = subscript_map 0 r1 rhs
                     in Inr (s\<lparr>registers := r2(destination \<mapsto>
                          subscript_value 0 (registers s) lhs * subscript_value 0 r1 rhs)\<rparr>)))))"

text \<open>
  The first half of the \<open>List\<close> handler: the size, read from a register when the
  characters at [7:11) are \<open>0000\<close>, and the literal at [5:11) otherwise. The
  \<open>unsigned int\<close> becomes a \<open>std::size_t\<close>.
\<close>

definition list_amount :: "string \<Rightarrow> state \<Rightarrow> (error \<times> state) + (nat \<times> state)" where
  "list_amount instruction s =
     (case substr instruction 7 4 of
        None \<Rightarrow> Inl (OutOfRange, s)
      | Some discriminator \<Rightarrow>
          if discriminator = ''0000'' then
            (case substr instruction 5 2 of
               None \<Rightarrow> Inl (OutOfRange, s)
             | Some registerAddress \<Rightarrow>
                 if \<not> validRegister registerAddress
                 then Inl (InvalidRegisterError registerAddress, s)
                 else Inr (unat (subscript_value 0 (registers s) registerAddress),
                           s\<lparr>registers := subscript_map 0 (registers s) registerAddress\<rparr>))
          else
            (case substr instruction 5 6 of
               None \<Rightarrow> Inl (OutOfRange, s)
             | Some literal \<Rightarrow>
                (case binaryToDecimal literal of
                   None \<Rightarrow> Inl (UndefinedConversion, s)
                 | Some v \<Rightarrow> Inr (unat v, s))))"

definition handle_List :: "string \<Rightarrow> state \<Rightarrow> (error \<times> state) + state" where
  "handle_List instruction s =
     (case list_amount instruction s of
        Inl e \<Rightarrow> Inl e
      | Inr (amount, s1) \<Rightarrow>
         (case substr_from instruction 11 of
            None \<Rightarrow> Inl (OutOfRange, s1)
          | Some source \<Rightarrow>
              if \<not> validRegister source
              then Inl (InvalidRegisterError source, s1)
              else Inr (s1\<lparr>arrays := (arrays s1)(source \<mapsto> replicate amount 0)\<rparr>)))"

text \<open>
  The loop of \<open>ListInit\<close>: \<open>arr\<close> is \<open>arrays[source]\<close>, whose size the loop
  condition reads again in every iteration.
\<close>

function listInit_loop :: "string \<Rightarrow> nat \<Rightarrow> state \<Rightarrow> state" where
  "listInit_loop source i s =
     (if i < length (subscript_value [] (arrays s) source) then
        listInit_loop source (Suc i)
          (s\<lparr>arrays := (arrays s)(source \<mapsto>
                 (subscript_value [] (arrays s) source)
                   [i := fst (cin_read (subscript_value [] (arrays s) source ! i) (cin s))]),
             cin := snd (cin_read (subscript_value [] (arrays s) source ! i) (cin s)),
             cout := cout s @ [Text ''Enter value for index '', Index i, Text '': '']\<rparr>)
      else s\<lparr>arrays := subscript_map [] (arrays s) source\<rparr>)"
  by pat_completeness auto
termination
  by (relation "measure (\<lambda>(source, i, s). length (subscript_value [] (arrays s) source) - i)")
     (auto simp: subscript_value_def)

declare listInit_loop.simps [simp del]

definition handle_ListInit :: "string \<Rightarrow> state \<Rightarrow> (error \<times> state) + state" where
  "handle_ListInit instruction s =
     (case substr instruction 5 2 of
        None \<Rightarrow> Inl (OutOfRange, s)
      | Some source \<Rightarrow>
          if \<not> validRegister source
          then Inl (InvalidRegisterError source, s)
          else Inr (listInit_loop source 0 s))"

definition handle_ListSum :: "string \<Rightarrow> state \<Rightarrow> (error \<times> state) + state" where
  "handle_ListSum instruction s =
     (case substr instruction 5 2 of
        None \<Rightarrow> Inl (OutOfRange, s)
      | Some source \<Rightarrow>
         (case substr instruction 7 2 of
            None \<Rightarrow> Inl (OutOfRange, s)
          | Some destination \<Rightarrow>
              if \<not> validRegister source then Inl (InvalidRegisterError source, s)
              else if \<not> validRegister destination
              then Inl (InvalidRegisterError destination, s)
              else
                (let sum = foldl (+) 0 (subscript_value [] (arrays s) source)
                 in Inr (s\<lparr>arrays := subscript_map [] (arrays s) source,
                            registers := (registers s)(destination \<mapsto> sum)\<rparr>))))"

definition handle_TidyUp :: "state \<Rightarrow> (error \<times> state) + state" where
  "handle_TidyUp s =
     Inr (s\<lparr>registers := (\<lambda>k. case registers s k of None \<Rightarrow> None | Some v \<Rightarrow> Some 0)\<rparr>)"

subsection \<open>The loop body and main\<close>

text \<open>
  One iteration of the execution loop. The values of \<open>enum Opcode\<close> are
  \<open>Stop = 0\<close>, \<open>In = 1\<close>, \<open>Out = 2\<close>, \<open>Incr = 3\<close>, \<open>Add = 4\<close>, \<open>Sub = 5\<close>,
  \<open>Mul = 6\<close>, \<open>List = 7\<close>, \<open>ListInit = 8\<close>, \<open>ListSum = 9\<close>, \<open>TidyUp = 10\<close>.
  The \<open>Stop\<close> branch writes its message and falls out of the chain like every other
  branch: the iteration ends and the loop goes on to the next instruction.
\<close>

definition execute :: "string \<Rightarrow> state \<Rightarrow> (error \<times> state) + state" where
  "execute instruction s =
     (case substr instruction 0 5 of
        None \<Rightarrow> Inl (OutOfRange, s)
      | Some opcode \<Rightarrow>
         (case binaryToDecimal opcode of
            None \<Rightarrow> Inl (UndefinedConversion, s)
          | Some op \<Rightarrow>
              if op = 0 then Inr (s\<lparr>cout := cout s @ [Text ''Program ended successfully.'']\<rparr>)
              else if op = 1 then handle_In instruction s
              else if op = 2 then handle_Out instruction s
              else if op = 3 then handle_Incr instruction s
              else if op = 4 then handle_Add instruction s
              else if op = 5 then handle_Sub instruction s
              else if op = 6 then handle_Mul instruction s
              else if op = 7 then handle_List instruction s
              else if op = 8 then handle_ListInit instruction s
              else if op = 9 then handle_ListSum instruction s
              else if op = 10 then handle_TidyUp s
              else Inr s))"

text \<open>The execution loop over \<open>memory\<close>; falling off the end is \<open>EXIT_SUCCESS\<close>.\<close>

fun run :: "string list \<Rightarrow> state \<Rightarrow> (error \<times> state) + state" where
  "run [] s = Inr s"
| "run (instruction # rest) s =
     (case execute instruction s of
        Inl e \<Rightarrow> Inl e
      | Inr s' \<Rightarrow> run rest s')"

text \<open>The pass over the opcodes that precedes execution.\<close>

fun check_opcodes :: "string list \<Rightarrow> error option" where
  "check_opcodes [] = None"
| "check_opcodes (ins # rest) =
     (case substr ins 0 5 of
        None \<Rightarrow> Some OutOfRange
      | Some bits \<Rightarrow>
         (case binaryToDecimal bits of
            None \<Rightarrow> Some UndefinedConversion
          | Some v \<Rightarrow> if v > 10 then Some (InvalidOpcodeError bits) else check_opcodes rest))"

text \<open>The state when the file has been read: four registers at 0, no array.\<close>

definition initial :: "string list \<Rightarrow> u32 list \<Rightarrow> state" where
  "initial tokens input =
     \<lparr>registers = [''00'' \<mapsto> 0, ''01'' \<mapsto> 0, ''10'' \<mapsto> 0, ''11'' \<mapsto> 0],
      arrays = Map.empty, memory = tokens, cin = input, cout = []\<rparr>"

definition main :: "string list \<Rightarrow> u32 list \<Rightarrow> (error \<times> state) + state" where
  "main tokens input =
     (let s = initial tokens input in
      if ''0000000000000'' \<notin> set (memory s) then Inl (MissingHaltError, s)
      else
        (case check_opcodes (memory s) of
           Some e \<Rightarrow> Inl (e, s)
         | None \<Rightarrow> run (memory s) s))"

text \<open>
  The instruction word of the specification: exactly 13 characters, each \<open>0\<close> or \<open>1\<close>.
\<close>

definition instruction_word :: "string \<Rightarrow> bool" where
  "instruction_word ins \<longleftrightarrow>
     length ins = 13 \<and> (\<forall>c \<in> set ins. c = CHR ''0'' \<or> c = CHR ''1'')"

section \<open>Properties\<close>

subsection \<open>The decoder\<close>

lemma unat_add_small:
  "unat (r::u32) + k < 2 ^ 32 \<Longrightarrow> unat (r + word_of_nat k) = unat r + k"
  by (simp add: unat_word_ariths unat_of_nat take_bit_eq_mod)

lemma loop_positional:
  "i \<le> length binary \<Longrightarrow>
   binaryToDecimal_loop binary i r =
     (if unat r + positional (drop i binary) < 2 ^ 32
      then Some (r + word_of_nat (positional (drop i binary))) else None)"
proof (induction binary i r rule: binaryToDecimal_loop.induct)
  case (1 binary i result)
  show ?case
  proof (cases "i < length binary")
    case False
    have "unat result < 2 ^ 32"
      using unsigned_less [of result] by simp
    with False "1.prems" show ?thesis
      by (subst binaryToDecimal_loop.simps) simp
  next
    case True
    then have d: "drop i binary = binary ! i # drop (Suc i) binary"
      by (simp add: Cons_nth_drop_Suc)
    show ?thesis
    proof (cases "binary ! i = CHR ''1''")
      case False
      with True "1.IH"(2) show ?thesis
        by (simp add: binaryToDecimal_loop.simps [of binary i result] d)
    next
      case one: True
      show ?thesis
      proof (cases "unat result + 2 ^ (length binary - 1 - i) < 2 ^ 32")
        case False
        with True one show ?thesis
          by (simp add: binaryToDecimal_loop.simps [of binary i result] d add_pow_def)
      next
        case fits: True
        let ?r = "result + word_of_nat (2 ^ (length binary - 1 - i)) :: u32"
        have a: "add_pow result (length binary - 1 - i) = Some ?r"
          using fits by (simp add: add_pow_def)
        have u: "unat ?r = unat result + 2 ^ (length binary - 1 - i)"
          using fits by (rule unat_add_small)
        from "1.IH"(1) [OF True one a] True
        have "binaryToDecimal_loop binary (Suc i) ?r =
           (if unat ?r + positional (drop (Suc i) binary) < 2 ^ 32
            then Some (?r + word_of_nat (positional (drop (Suc i) binary))) else None)"
          by simp
        with True one a u show ?thesis
          by (simp add: binaryToDecimal_loop.simps [of binary i result] d add.assoc)
      qed
    qed
  qed
qed

lemma binaryToDecimal_positional:
  "binaryToDecimal binary =
     (if positional binary < 2 ^ 32 then Some (word_of_nat (positional binary)) else None)"
  using loop_positional [of 0 binary 0] by (simp add: binaryToDecimal_def)

lemma positional_append:
  "positional (xs @ [c]) = 2 * positional xs + (if c = CHR ''1'' then 1 else 0)"
  by (induction xs) auto

lemma positional_toBinary: "positional (toBinary w n) = n mod 2 ^ w"
proof (induction w arbitrary: n)
  case 0
  show ?case by simp
next
  case (Suc w)
  have "n mod 2 ^ Suc w = 2 * (n div 2 mod 2 ^ w) + n mod 2"
    by (simp add: mod_mult2_eq)
  with Suc show ?case
    by (simp add: positional_append odd_iff_mod_2_eq_one)
qed

lemma length_toBinary: "length (toBinary w n) = w"
  by (induction w arbitrary: n) auto

lemma positional_sum:
  "positional s = (\<Sum>i<length s. if s ! i = CHR ''1'' then 2 ^ (length s - 1 - i) else 0)"
proof (induction s)
  case Nil
  show ?case by simp
next
  case (Cons c cs)
  have "(\<Sum>i<length (c # cs). if (c # cs) ! i = CHR ''1'' then 2 ^ (length (c # cs) - 1 - i) else 0)
      = (if c = CHR ''1'' then 2 ^ length cs else 0) +
        (\<Sum>i<length cs. if cs ! i = CHR ''1'' then 2 ^ (length cs - 1 - i) else (0::nat))"
    unfolding length_Cons sum.lessThan_Suc_shift by (auto intro!: sum.cong)
  with Cons show ?case
    by simp
qed

lemma positional_no_one: "CHR ''1'' \<notin> set s \<Longrightarrow> positional s = 0"
  by (induction s) auto

lemma toBinary_numeral:
  "toBinary (numeral k) n =
     toBinary (pred_numeral k) (n div 2) @ [if odd n then CHR ''1'' else CHR ''0'']"
  by (simp add: numeral_eq_Suc)

text \<open>
  C8. \<open>binaryToDecimal\<close> round-trips with the canonical fixed-width encoder: for
  every field width \<open>w\<close> and every unsigned integer \<open>n\<close> (a value of the result
  type \<open>unsigned int\<close>) with \<open>n < 2 ^ w\<close>, decoding the \<open>w\<close>-character
  encoding of \<open>n\<close> yields \<open>n\<close>. Equivalently, the result is the sum in which each
  \<open>1\<close> at position \<open>i\<close> of a length-\<open>L\<close> input contributes
  \<open>2 ^ (L - 1 - i)\<close>, for every input whose sum the result type holds; an input
  without a \<open>1\<close> (the empty and the all-zero string among them) decodes to 0.
\<close>

theorem binaryToDecimal_roundtrip:
  fixes n :: u32
  shows "(unat n < 2 ^ w \<longrightarrow> binaryToDecimal (toBinary w (unat n)) = Some n) \<and>
   ((\<Sum>i<length s. if s ! i = CHR ''1'' then 2 ^ (length s - 1 - i) else 0) < (2::nat) ^ 32 \<longrightarrow>
      (\<exists>r. binaryToDecimal s = Some r \<and>
           unat r = (\<Sum>i<length s. if s ! i = CHR ''1'' then 2 ^ (length s - 1 - i) else 0))) \<and>
   (CHR ''1'' \<notin> set s \<longrightarrow> binaryToDecimal s = Some 0)"
proof (intro conjI impI)
  assume "unat n < 2 ^ w"
  then have p: "positional (toBinary w (unat n)) = unat n"
    by (simp add: positional_toBinary)
  have "unat n < 2 ^ 32"
    using unsigned_less [of n] by simp
  with p show "binaryToDecimal (toBinary w (unat n)) = Some n"
    by (simp add: binaryToDecimal_positional)
next
  assume "(\<Sum>i<length s. if s ! i = CHR ''1'' then 2 ^ (length s - 1 - i) else 0) < (2::nat) ^ 32"
  then have "positional s < 2 ^ 32"
    by (simp only: positional_sum)
  then have "\<exists>r. binaryToDecimal s = Some r \<and> unat r = positional s"
    by (simp add: binaryToDecimal_positional unat_of_nat take_bit_eq_mod)
  then show "\<exists>r. binaryToDecimal s = Some r \<and>
      unat r = (\<Sum>i<length s. if s ! i = CHR ''1'' then 2 ^ (length s - 1 - i) else 0)"
    by (simp only: positional_sum)
next
  assume "CHR ''1'' \<notin> set s"
  then show "binaryToDecimal s = Some 0"
    by (simp add: binaryToDecimal_positional positional_no_one)
qed

text \<open>C8 at the 6-bit field: 37, 63, the all-zero field, and the empty string.\<close>

theorem binaryToDecimal_roundtrip_witness:
  "unat (37::u32) < 2 ^ 6 \<and> toBinary 6 (unat (37::u32)) = ''100101'' \<and>
   binaryToDecimal ''100101'' = Some 37 \<and>
   unat (63::u32) < 2 ^ 6 \<and> toBinary 6 (unat (63::u32)) = ''111111'' \<and>
   binaryToDecimal ''111111'' = Some 63 \<and>
   CHR ''1'' \<notin> set ''000000'' \<and> binaryToDecimal ''000000'' = Some 0 \<and>
   binaryToDecimal '''' = Some 0"
proof -
  have e: "toBinary 6 (unat (37::u32)) = ''100101''" "toBinary 6 (unat (63::u32)) = ''111111''"
    by (simp_all add: toBinary_numeral)
  have "binaryToDecimal (toBinary 6 (unat (37::u32))) = Some 37"
    using binaryToDecimal_roundtrip [of 37 6 "''000000''"] by simp
  moreover have "binaryToDecimal (toBinary 6 (unat (63::u32))) = Some 63"
    using binaryToDecimal_roundtrip [of 63 6 "''000000''"] by simp
  moreover have "binaryToDecimal ''000000'' = Some 0"
    using binaryToDecimal_roundtrip [of 37 6 "''000000''"] by simp
  moreover have "binaryToDecimal '''' = Some 0"
    using binaryToDecimal_roundtrip [of 37 6 "''''"] by simp
  ultimately show ?thesis
    using e by simp
qed

subsection \<open>Running programs\<close>

text \<open>The equations that evaluate a run on a concrete program.\<close>

lemmas eval_simps =
  main_def initial_def execute_def handle_In_def handle_Out_def handle_Incr_def
  handle_Add_def handle_Sub_def handle_Mul_def list_amount_def handle_List_def
  handle_ListInit_def handle_ListSum_def handle_TidyUp_def
  substr_def substr_from_def validRegister_def char_at_def
  subscript_value_def subscript_map_def binaryToDecimal_positional Let_def

text \<open>
  C1 (the code departs from it). The claim: the loop ends at the first \<open>Stop\<close>, and
  no later instruction is executed. The \<open>Stop\<close> branch only writes its message. On
  the program \<open>Stop; Incr 1 into 00\<close> the run writes the message, then executes the
  \<open>Incr\<close>, and ends with register \<open>00\<close> at 1.
\<close>

theorem stop_does_not_end_run:
  "\<not> isl (main [''0000000000000'', ''0001100000100''] []) \<and>
   registers (projr (main [''0000000000000'', ''0001100000100''] [])) ''00'' = Some 1 \<and>
   cout (projr (main [''0000000000000'', ''0001100000100''] [])) = [Text ''Program ended successfully.'']"
  by (simp add: eval_simps)

text \<open>
  C3 (the code departs from it). The claim: every field that names a register, the
  \<open>lhs\<close> and \<open>rhs\<close> of \<open>Add\<close>, \<open>Sub\<close> and \<open>Mul\<close> among them, is validated
  before use, and the run aborts when one fails. The \<open>Add\<close> handler validates its
  destination only: with \<open>ab\<close> in the \<open>lhs\<close> field the run reads
  \<open>registers["ab"]\<close> and ends with success.
\<close>

theorem add_reads_unvalidated_register:
  "substr ''00100ab000000'' 5 2 = Some ''ab'' \<and> \<not> validRegister ''ab'' \<and>
   \<not> isl (main [''00100ab000000'', ''0000000000000''] [])"
  by (simp add: eval_simps)

text \<open>
  C4 (the code departs from it). The claim: the register file holds exactly the four
  registers at every point of every run. Reading \<open>registers[rhs]\<close> with the
  unvalidated field \<open>0x\<close> inserts a fifth entry.
\<close>

theorem sub_creates_register:
  "\<not> isl (main [''00101000x0000'', ''0000000000000''] []) \<and>
   dom (registers (projr (main [''00101000x0000'', ''0000000000000''] []))) =
     {''00'', ''01'', ''10'', ''11'', ''0x''}"
  by (auto simp add: eval_simps)

text \<open>
  C5. A program in which no token equals \<open>0000000000000\<close> is rejected with
  \<open>MissingHaltError\<close>, whatever else it contains, in the state in which the file
  was read: no instruction has been executed, nothing was read from or written to the console.
\<close>

theorem missing_halt_rejected:
  "''0000000000000'' \<notin> set tokens \<Longrightarrow>
   main tokens input = Inl (MissingHaltError, initial tokens input)"
  by (simp add: main_def initial_def)

text \<open>C5 at a program without the halt token, one of whose opcodes is also out of range.\<close>

theorem missing_halt_rejected_witness:
  "''0000000000000'' \<notin> set [''0001100000100'', ''1111100000000''] \<and>
   main [''0001100000100'', ''1111100000000''] [7] =
     Inl (MissingHaltError, initial [''0001100000100'', ''1111100000000''] [7])"
  using missing_halt_rejected [of "[''0001100000100'', ''1111100000000'']" "[7]"]
  by simp

lemma positional_bound: "positional s < 2 ^ length s"
proof (induction s)
  case Nil
  show ?case by simp
next
  case (Cons c cs)
  then show ?case by simp
qed

lemma binaryToDecimal_short:
  assumes "length s \<le> 32"
  shows "binaryToDecimal s = Some (word_of_nat (positional s))"
    and "unat (word_of_nat (positional s) :: u32) = positional s"
proof -
  have "positional s < 2 ^ length s"
    by (rule positional_bound)
  also have "(2::nat) ^ length s \<le> 2 ^ 32"
    using assms by (rule power_increasing) simp
  finally have b: "positional s < 2 ^ 32" .
  then show "binaryToDecimal s = Some (word_of_nat (positional s))"
    by (simp add: binaryToDecimal_positional)
  from b show "unat (word_of_nat (positional s) :: u32) = positional s"
    by (simp add: unat_of_nat take_bit_eq_mod)
qed

lemma check_opcodes_bad:
  assumes "ins \<in> set tokens" and "binaryToDecimal (take 5 ins) = Some v" and "v > 10"
  shows "\<exists>bits. check_opcodes tokens = Some (InvalidOpcodeError bits)"
  using assms(1)
proof (induction tokens)
  case Nil
  then show ?case by simp
next
  case (Cons t ts)
  have t: "binaryToDecimal (take 5 t) = Some (word_of_nat (positional (take 5 t)))"
    by (rule binaryToDecimal_short) simp
  show ?case
  proof (cases "word_of_nat (positional (take 5 t)) > (10::u32)")
    case True
    with t show ?thesis by (simp add: substr_def)
  next
    case False
    with t assms(2,3) have "ins \<noteq> t" by auto
    with Cons have "\<exists>bits. check_opcodes ts = Some (InvalidOpcodeError bits)" by simp
    with t False show ?thesis by (simp add: substr_def)
  qed
qed

text \<open>
  C6 (amended). A program that contains the halt token \<open>0000000000000\<close> and an
  instruction whose leading 5-character opcode field decodes to more than 10 is rejected
  with \<open>InvalidOpcodeError\<close> in the pass that precedes execution, in the state in
  which the file was read: no register, array or console effect of any instruction is
  observable. (Without the halt token the run is rejected with \<open>MissingHaltError\<close>,
  by the check that comes first.)
\<close>

theorem invalid_opcode_rejected:
  assumes "''0000000000000'' \<in> set tokens"
    and "ins \<in> set tokens" and "binaryToDecimal (take 5 ins) = Some v" and "v > 10"
  shows "\<exists>bits. main tokens input = Inl (InvalidOpcodeError bits, initial tokens input)"
proof -
  from check_opcodes_bad [OF assms(2,3,4)]
  obtain bits where "check_opcodes tokens = Some (InvalidOpcodeError bits)" ..
  with assms(1) show ?thesis
    by (simp add: main_def initial_def)
qed

text \<open>C6 (amended) at \<open>Incr; opcode 31; Stop\<close>.\<close>

theorem invalid_opcode_rejected_witness:
  "''0000000000000'' \<in> set [''0001100000100'', ''1111100000000'', ''0000000000000''] \<and>
   binaryToDecimal (take 5 ''1111100000000'') = Some 31 \<and> (31::u32) > 10 \<and>
   (\<exists>bits. main [''0001100000100'', ''1111100000000'', ''0000000000000''] [] =
      Inl (InvalidOpcodeError bits, initial [''0001100000100'', ''1111100000000'', ''0000000000000''] []))"
proof -
  have b: "binaryToDecimal (take 5 ''1111100000000'') = Some 31"
    by (simp add: binaryToDecimal_positional)
  have "\<exists>bits. main [''0001100000100'', ''1111100000000'', ''0000000000000''] [] =
      Inl (InvalidOpcodeError bits, initial [''0001100000100'', ''1111100000000'', ''0000000000000''] [])"
    by (rule invalid_opcode_rejected [OF _ _ b]) simp_all
  with b show ?thesis by simp
qed

text \<open>
  C6 as stated, for every program: the program whose only token has opcode 31 holds no
  halt token, and is rejected with \<open>MissingHaltError\<close>, not with
  \<open>InvalidOpcodeError\<close>.
\<close>

theorem invalid_opcode_without_halt_counterexample:
  "binaryToDecimal (take 5 ''1111100000000'') = Some 31 \<and>
   main [''1111100000000''] [] = Inl (MissingHaltError, initial [''1111100000000''] [])"
  by (simp add: eval_simps)

subsection \<open>Single instructions\<close>

lemma instruction_word_substr:
  "instruction_word ins \<Longrightarrow> pos \<le> 13 \<Longrightarrow> substr ins pos n = Some (take n (drop pos ins))"
  by (simp add: instruction_word_def substr_def)

lemma instruction_word_substr_from:
  "instruction_word ins \<Longrightarrow> substr_from ins 11 = Some (take 2 (drop 11 ins))"
  by (simp add: instruction_word_def substr_from_def)

lemma validRegister_pair:
  "validRegister [a, b] \<longleftrightarrow> (a = CHR ''0'' \<or> a = CHR ''1'') \<and> (b = CHR ''0'' \<or> b = CHR ''1'')"
  by (simp add: validRegister_def char_at_def)

lemma instruction_word_field:
  assumes "instruction_word ins" and "pos + 2 \<le> 13"
  shows "validRegister (take 2 (drop pos ins))"
proof -
  from assms have l: "length ins = 13" and c: "\<forall>c \<in> set ins. c = CHR ''0'' \<or> c = CHR ''1''"
    by (simp_all add: instruction_word_def)
  from l assms(2) have e: "take 2 (drop pos ins) = [ins ! pos, ins ! Suc pos]"
    by (simp add: list_eq_iff_nth_eq less_Suc_eq numeral_2_eq_2)
  from l assms(2) have "ins ! pos \<in> set ins" and "ins ! Suc pos \<in> set ins"
    by simp_all
  with c show ?thesis
    unfolding e validRegister_pair by blast
qed

lemma subscript_value_map [simp]:
  "subscript_value d (subscript_map d m k) k' = subscript_value d m k'"
  by (simp add: subscript_value_def subscript_map_def split: option.splits)

lemma field_of_prefix:
  "k + n \<le> m \<Longrightarrow> take n (drop k (take m x)) = take n (drop k x)"
  by (simp add: drop_take min_def)

lemma arithmetic_fields:
  assumes "11 \<le> length ins"
    and "binaryToDecimal (take 5 ins) = Some op"
    and "op = 4 \<or> op = 5 \<or> op = 6"
    and "validRegister (take 2 (drop 9 ins))"
  shows "execute ins s =
     Inr (s\<lparr>registers :=
       (subscript_map 0 (subscript_map 0 (registers s) (take 2 (drop 5 ins)))
          (take 2 (drop 7 ins)))
       (take 2 (drop 9 ins) \<mapsto>
          (if op = 4 then
             subscript_value 0 (registers s) (take 2 (drop 5 ins)) +
             subscript_value 0 (registers s) (take 2 (drop 7 ins))
           else if op = 5 then
             subscript_value 0 (registers s) (take 2 (drop 5 ins)) -
             subscript_value 0 (registers s) (take 2 (drop 7 ins))
           else
             subscript_value 0 (registers s) (take 2 (drop 5 ins)) *
             subscript_value 0 (registers s) (take 2 (drop 7 ins))))\<rparr>)"
  using assms(3)
proof (elim disjE)
  assume "op = 4"
  with assms(1,2,4) show ?thesis
    by (simp add: execute_def handle_Add_def substr_def Let_def)
next
  assume "op = 5"
  with assms(1,2,4) show ?thesis
    by (simp add: execute_def handle_Sub_def substr_def Let_def)
next
  assume "op = 6"
  with assms(1,2,4) show ?thesis
    by (simp add: execute_def handle_Mul_def substr_def Let_def)
qed

text \<open>
  C2 (amended). For every well-formed 13-bit \<open>Add\<close>, \<open>Sub\<close> or \<open>Mul\<close>
  instruction, the destination register is decoded from the 2-bit field at [9:11) of
  the instruction word, and the sum, difference or product of the values read from the
  registers named at [5:7) and [7:9) is stored into that register; nothing else
  changes, beyond what reading the two source registers does to the register file. The
  characters at [11:13) are not read: a token with the same first 11 characters has
  the same effect.
\<close>

theorem arithmetic_destination:
  assumes "instruction_word instruction"
    and "binaryToDecimal (take 5 instruction) = Some op"
    and "op = 4 \<or> op = 5 \<or> op = 6"
  shows "execute instruction s =
     Inr (s\<lparr>registers :=
       (subscript_map 0 (subscript_map 0 (registers s) (take 2 (drop 5 instruction)))
          (take 2 (drop 7 instruction)))
       (take 2 (drop 9 instruction) \<mapsto>
          (if op = 4 then
             subscript_value 0 (registers s) (take 2 (drop 5 instruction)) +
             subscript_value 0 (registers s) (take 2 (drop 7 instruction))
           else if op = 5 then
             subscript_value 0 (registers s) (take 2 (drop 5 instruction)) -
             subscript_value 0 (registers s) (take 2 (drop 7 instruction))
           else
             subscript_value 0 (registers s) (take 2 (drop 5 instruction)) *
             subscript_value 0 (registers s) (take 2 (drop 7 instruction))))\<rparr>) \<and>
     (\<forall>other. take 11 other = take 11 instruction \<longrightarrow>
        execute other s = execute instruction s)"
proof (intro conjI allI impI)
  have l: "11 \<le> length instruction"
    using assms(1) by (simp add: instruction_word_def)
  have v: "validRegister (take 2 (drop 9 instruction))"
    using assms(1) by (rule instruction_word_field) simp
  show e: "execute instruction s =
     Inr (s\<lparr>registers :=
       (subscript_map 0 (subscript_map 0 (registers s) (take 2 (drop 5 instruction)))
          (take 2 (drop 7 instruction)))
       (take 2 (drop 9 instruction) \<mapsto>
          (if op = 4 then
             subscript_value 0 (registers s) (take 2 (drop 5 instruction)) +
             subscript_value 0 (registers s) (take 2 (drop 7 instruction))
           else if op = 5 then
             subscript_value 0 (registers s) (take 2 (drop 5 instruction)) -
             subscript_value 0 (registers s) (take 2 (drop 7 instruction))
           else
             subscript_value 0 (registers s) (take 2 (drop 5 instruction)) *
             subscript_value 0 (registers s) (take 2 (drop 7 instruction))))\<rparr>)"
    using l assms(2,3) v by (rule arithmetic_fields)
  fix other :: string
  assume p: "take 11 other = take 11 instruction"
  have "length (take 11 other) = 11"
    using l by (simp add: p)
  then have lo: "11 \<le> length other"
    by simp
  have f: "take n (drop k other) = take n (drop k instruction)" if "k + n \<le> 11" for k n
    using field_of_prefix [OF that, of other] field_of_prefix [OF that, of instruction]
    by (simp only: p)
  have f0: "take 5 other = take 5 instruction"
    using f [of 0 5] by simp
  have "execute other s =
     Inr (s\<lparr>registers :=
       (subscript_map 0 (subscript_map 0 (registers s) (take 2 (drop 5 other)))
          (take 2 (drop 7 other)))
       (take 2 (drop 9 other) \<mapsto>
          (if op = 4 then
             subscript_value 0 (registers s) (take 2 (drop 5 other)) +
             subscript_value 0 (registers s) (take 2 (drop 7 other))
           else if op = 5 then
             subscript_value 0 (registers s) (take 2 (drop 5 other)) -
             subscript_value 0 (registers s) (take 2 (drop 7 other))
           else
             subscript_value 0 (registers s) (take 2 (drop 5 other)) *
             subscript_value 0 (registers s) (take 2 (drop 7 other))))\<rparr>)"
    using lo assms(2,3) v by (intro arithmetic_fields) (simp_all only: f0 f [of 9 2, simplified])
  then show "execute other s = execute instruction s"
    by (simp only: e f [of 5 2, simplified] f [of 7 2, simplified] f [of 9 2, simplified])
qed

text \<open>
  C2 (amended) at \<open>Add 00 01 10\<close> with 2 and 3 in the source registers, and at the
  token that differs from it in the characters at [11:13).
\<close>

theorem arithmetic_destination_witness:
  "instruction_word ''0010000011011'' \<and>
   binaryToDecimal (take 5 ''0010000011011'') = Some 4 \<and>
   take 11 ''0010000011000'' = take 11 ''0010000011011'' \<and>
   execute ''0010000011011'' ((initial [] [])\<lparr>registers := [''00'' \<mapsto> 2, ''01'' \<mapsto> 3]\<rparr>) =
     Inr ((initial [] [])\<lparr>registers := [''00'' \<mapsto> 2, ''01'' \<mapsto> 3, ''10'' \<mapsto> 5]\<rparr>) \<and>
   execute ''0010000011000'' ((initial [] [])\<lparr>registers := [''00'' \<mapsto> 2, ''01'' \<mapsto> 3]\<rparr>) =
     Inr ((initial [] [])\<lparr>registers := [''00'' \<mapsto> 2, ''01'' \<mapsto> 3, ''10'' \<mapsto> 5]\<rparr>)"
proof -
  have w: "instruction_word ''0010000011011''"
    by (simp add: instruction_word_def)
  have b: "binaryToDecimal (take 5 ''0010000011011'') = Some 4"
    by (simp add: binaryToDecimal_positional)
  have p: "take 11 ''0010000011000'' = take 11 ''0010000011011''"
    by simp
  note t = arithmetic_destination [OF w b,
      of "(initial [] [])\<lparr>registers := [''00'' \<mapsto> 2, ''01'' \<mapsto> 3]\<rparr>"]
  have e: "execute ''0010000011011'' ((initial [] [])\<lparr>registers := [''00'' \<mapsto> 2, ''01'' \<mapsto> 3]\<rparr>) =
     Inr ((initial [] [])\<lparr>registers := [''00'' \<mapsto> 2, ''01'' \<mapsto> 3, ''10'' \<mapsto> 5]\<rparr>)"
    using t by (simp add: subscript_value_def subscript_map_def initial_def)
  have "execute ''0010000011000'' ((initial [] [])\<lparr>registers := [''00'' \<mapsto> 2, ''01'' \<mapsto> 3]\<rparr>) =
     execute ''0010000011011'' ((initial [] [])\<lparr>registers := [''00'' \<mapsto> 2, ''01'' \<mapsto> 3]\<rparr>)"
    using t p by blast
  with w b p e show ?thesis by simp
qed

text \<open>
  C2 as stated, with the destination at [11:13): in \<open>0010000011011\<close> the field at
  [9:11) is \<open>10\<close> and the field at [11:13) is \<open>11\<close>. After \<open>Incr 2 into 00\<close>
  and \<open>Incr 3 into 01\<close> the sum 5 is in register \<open>10\<close>, and register \<open>11\<close> is
  still 0.
\<close>

theorem add_destination_counterexample:
  "\<not> isl (main [''0001100001000'', ''0001100001101'', ''0010000011011'', ''0000000000000''] []) \<and>
   registers (projr (main [''0001100001000'', ''0001100001101'', ''0010000011011'', ''0000000000000''] [])) ''11'' = Some 0 \<and>
   registers (projr (main [''0001100001000'', ''0001100001101'', ''0010000011011'', ''0000000000000''] [])) ''10'' = Some 5"
  by (simp add: eval_simps)

text \<open>
  C7. An executed \<open>List\<close> instruction binds a new zero-filled array to the register
  code at [11:13), replacing what was bound to it and leaving every other binding as it
  was. When the characters at [7:11) are \<open>0000\<close>, its size is the value that the
  register named at [5:7) holds at that moment; otherwise its size is the 6-bit literal
  at [5:11).
\<close>

theorem list_allocation:
  assumes "instruction_word instruction"
    and "binaryToDecimal (take 5 instruction) = Some 7"
  shows "\<exists>s'. execute instruction s = Inr s' \<and>
     arrays s' = (arrays s)(take 2 (drop 11 instruction) \<mapsto>
       replicate
         (if take 4 (drop 7 instruction) = ''0000''
          then unat (subscript_value 0 (registers s) (take 2 (drop 5 instruction)))
          else positional (take 6 (drop 5 instruction))) 0)"
proof -
  have v5: "validRegister (take 2 (drop 5 instruction))"
    using assms(1) by (rule instruction_word_field) simp
  have v11: "validRegister (take 2 (drop 11 instruction))"
    using assms(1) by (rule instruction_word_field) simp
  have lit: "binaryToDecimal (take 6 (drop 5 instruction)) =
      Some (word_of_nat (positional (take 6 (drop 5 instruction))))"
    "unat (word_of_nat (positional (take 6 (drop 5 instruction))) :: u32) =
      positional (take 6 (drop 5 instruction))"
    by (rule binaryToDecimal_short, simp)+
  show ?thesis
  proof (cases "take 4 (drop 7 instruction) = ''0000''")
    case True
    with assms v5 v11 show ?thesis
      by (simp add: execute_def handle_List_def list_amount_def instruction_word_substr
          instruction_word_substr_from)
  next
    case False
    with assms v11 lit show ?thesis
      by (simp add: execute_def handle_List_def list_amount_def instruction_word_substr
          instruction_word_substr_from)
  qed
qed

text \<open>
  C7 at \<open>0011101000010\<close> (size from register \<open>01\<close>, which holds 3, over an
  array already bound to \<open>10\<close>) and at \<open>0011100001001\<close> (the literal 2).
\<close>

theorem list_allocation_witness:
  "instruction_word ''0011101000010'' \<and>
   binaryToDecimal (take 5 ''0011101000010'') = Some 7 \<and>
   (\<exists>s'. execute ''0011101000010''
           ((initial [] [])\<lparr>registers := [''01'' \<mapsto> 3], arrays := [''10'' \<mapsto> [9]]\<rparr>) = Inr s' \<and>
         arrays s' ''10'' = Some (replicate 3 0)) \<and>
   instruction_word ''0011100001001'' \<and>
   binaryToDecimal (take 5 ''0011100001001'') = Some 7 \<and>
   (\<exists>s'. execute ''0011100001001'' (initial [] []) = Inr s' \<and>
         arrays s' ''01'' = Some [0, 0])"
proof -
  have w1: "instruction_word ''0011101000010''" and w2: "instruction_word ''0011100001001''"
    by (simp_all add: instruction_word_def)
  have b1: "binaryToDecimal (take 5 ''0011101000010'') = Some 7"
    and b2: "binaryToDecimal (take 5 ''0011100001001'') = Some 7"
    by (simp_all add: binaryToDecimal_positional)
  from list_allocation [OF w1 b1,
      of "(initial [] [])\<lparr>registers := [''01'' \<mapsto> 3], arrays := [''10'' \<mapsto> [9]]\<rparr>"]
  have 1: "\<exists>s'. execute ''0011101000010''
           ((initial [] [])\<lparr>registers := [''01'' \<mapsto> 3], arrays := [''10'' \<mapsto> [9]]\<rparr>) = Inr s' \<and>
         arrays s' ''10'' = Some (replicate 3 0)"
    by (fastforce simp: subscript_value_def initial_def)
  from list_allocation [OF w2 b2, of "initial [] []"]
  have 2: "\<exists>s'. execute ''0011100001001'' (initial [] []) = Inr s' \<and>
         arrays s' ''01'' = Some [0, 0]"
    by (fastforce simp: initial_def)
  from w1 w2 b1 b2 1 2 show ?thesis by simp
qed

text \<open>
  C9. Executing \<open>TidyUp\<close> sets every register of the file to 0, neither adding nor
  removing one, and leaves every array (its size and its elements), program memory and
  the console as they were.
\<close>

theorem tidyUp_frame:
  assumes "binaryToDecimal (take 5 instruction) = Some 10"
  shows "\<exists>s'. execute instruction s = Inr s' \<and>
     (\<forall>k \<in> dom (registers s). registers s' k = Some 0) \<and>
     dom (registers s') = dom (registers s) \<and>
     arrays s' = arrays s \<and> memory s' = memory s \<and> cin s' = cin s \<and> cout s' = cout s"
  using assms
  by (auto simp: execute_def handle_TidyUp_def substr_def split: option.splits)

text \<open>C9 at a state with 7 in register \<open>00\<close> and the array \<open>[1, 2]\<close> bound to \<open>01\<close>.\<close>

theorem tidyUp_frame_witness:
  "binaryToDecimal (take 5 ''0101000000000'') = Some 10 \<and>
   ''00'' \<in> dom (registers ((initial [] [])\<lparr>registers := [''00'' \<mapsto> 7], arrays := [''01'' \<mapsto> [1, 2]]\<rparr>)) \<and>
   (\<exists>s'. execute ''0101000000000''
           ((initial [] [])\<lparr>registers := [''00'' \<mapsto> 7], arrays := [''01'' \<mapsto> [1, 2]]\<rparr>) = Inr s' \<and>
         registers s' ''00'' = Some 0 \<and> arrays s' ''01'' = Some [1, 2])"
proof -
  have b: "binaryToDecimal (take 5 ''0101000000000'') = Some 10"
    by (simp add: binaryToDecimal_positional)
  from tidyUp_frame [OF b,
      of "(initial [] [])\<lparr>registers := [''00'' \<mapsto> 7], arrays := [''01'' \<mapsto> [1, 2]]\<rparr>"]
  have "\<exists>s'. execute ''0101000000000''
           ((initial [] [])\<lparr>registers := [''00'' \<mapsto> 7], arrays := [''01'' \<mapsto> [1, 2]]\<rparr>) = Inr s' \<and>
         registers s' ''00'' = Some 0 \<and> arrays s' ''01'' = Some [1, 2]"
    by (fastforce simp: initial_def)
  with b show ?thesis by simp
qed

text \<open>
  C10. Executing \<open>ListSum\<close> with valid source and destination codes, when no array
  is bound to the source code, stores 0 into the destination register and leaves an
  empty array bound to the source code; no error is reported, and the run goes on with
  the next instruction.
\<close>

theorem listSum_unbound_array:
  assumes "binaryToDecimal (take 5 instruction) = Some 9"
    and "validRegister (take 2 (drop 5 instruction))"
    and "validRegister (take 2 (drop 7 instruction))"
    and "arrays s (take 2 (drop 5 instruction)) = None"
  shows "execute instruction s =
       Inr (s\<lparr>arrays := (arrays s)(take 2 (drop 5 instruction) \<mapsto> []),
              registers := (registers s)(take 2 (drop 7 instruction) \<mapsto> 0)\<rparr>) \<and>
     run (instruction # rest) s =
       run rest (s\<lparr>arrays := (arrays s)(take 2 (drop 5 instruction) \<mapsto> []),
                   registers := (registers s)(take 2 (drop 7 instruction) \<mapsto> 0)\<rparr>)"
proof -
  from assms(2) have "length (take 2 (drop 5 instruction)) = 2"
    by (simp add: validRegister_def)
  then have l: "7 \<le> length instruction"
    by simp
  with assms have "execute instruction s =
       Inr (s\<lparr>arrays := (arrays s)(take 2 (drop 5 instruction) \<mapsto> []),
              registers := (registers s)(take 2 (drop 7 instruction) \<mapsto> 0)\<rparr>)"
    by (simp add: execute_def handle_ListSum_def substr_def subscript_value_def subscript_map_def)
  then show ?thesis by simp
qed

text \<open>C10 at \<open>ListSum 01 into 10\<close>, with 9 in register \<open>10\<close> and no array.\<close>

theorem listSum_unbound_array_witness:
  "binaryToDecimal (take 5 ''0100101100000'') = Some 9 \<and>
   validRegister (take 2 (drop 5 ''0100101100000'')) \<and>
   validRegister (take 2 (drop 7 ''0100101100000'')) \<and>
   arrays ((initial [] [])\<lparr>registers := [''10'' \<mapsto> 9]\<rparr>) (take 2 (drop 5 ''0100101100000'')) = None \<and>
   \<not> isl (execute ''0100101100000'' ((initial [] [])\<lparr>registers := [''10'' \<mapsto> 9]\<rparr>)) \<and>
   arrays (projr (execute ''0100101100000'' ((initial [] [])\<lparr>registers := [''10'' \<mapsto> 9]\<rparr>)))
     ''01'' = Some [] \<and>
   registers (projr (execute ''0100101100000'' ((initial [] [])\<lparr>registers := [''10'' \<mapsto> 9]\<rparr>)))
     ''10'' = Some 0"
proof -
  have b: "binaryToDecimal (take 5 ''0100101100000'') = Some 9"
    by (simp add: binaryToDecimal_positional)
  have v: "validRegister (take 2 (drop 5 ''0100101100000''))"
    "validRegister (take 2 (drop 7 ''0100101100000''))"
    by (simp_all add: validRegister_def char_at_def)
  have a: "arrays ((initial [] [])\<lparr>registers := [''10'' \<mapsto> 9]\<rparr>) (take 2 (drop 5 ''0100101100000'')) = None"
    by (simp add: initial_def)
  from listSum_unbound_array [OF b v a, of "[]"] b v a
  show ?thesis by (simp add: initial_def)
qed

end
